theory Spec2Isabelle
  imports Complex_Main
begin

section \<open>JavaScript numbers\<close>

text \<open>
  The scripts compute with JavaScript numbers. Layout measurements read from the
  document (bounding rectangles, scroll offsets, viewport and document heights) are
  finite and are modelled as \<^typ>\<open>real\<close>. Where the source divides by a quantity
  that can be zero, or receives the result of such a division, the number is
  modelled by \<open>jsnum\<close>, which adds the three non-finite results of JavaScript
  arithmetic to the reals. A zero divisor is the positive zero that a subtraction of
  two equal finite numbers yields. The rounding of the binary representation is
  modelled where a result depends on it, in the background transition.
\<close>

datatype jsnum = NaN | NegInf | Num real | PosInf

fun js_lt :: "jsnum \<Rightarrow> jsnum \<Rightarrow> bool" where
  "js_lt NaN y = False"
| "js_lt x NaN = False"
| "js_lt NegInf NegInf = False"
| "js_lt NegInf y = True"
| "js_lt x NegInf = False"
| "js_lt PosInf y = False"
| "js_lt (Num a) PosInf = True"
| "js_lt (Num a) (Num b) = (a < b)"

fun js_ge :: "jsnum \<Rightarrow> jsnum \<Rightarrow> bool" where
  "js_ge NaN y = False"
| "js_ge x NaN = False"
| "js_ge x y = (\<not> js_lt x y)"

definition js_gt :: "jsnum \<Rightarrow> jsnum \<Rightarrow> bool" where
  "js_gt x y = js_lt y x"

fun js_neg :: "jsnum \<Rightarrow> jsnum" where
  "js_neg NaN = NaN"
| "js_neg NegInf = PosInf"
| "js_neg PosInf = NegInf"
| "js_neg (Num a) = Num (- a)"

fun js_add :: "jsnum \<Rightarrow> jsnum \<Rightarrow> jsnum" where
  "js_add NaN y = NaN"
| "js_add x NaN = NaN"
| "js_add PosInf NegInf = NaN"
| "js_add NegInf PosInf = NaN"
| "js_add PosInf y = PosInf"
| "js_add x PosInf = PosInf"
| "js_add NegInf y = NegInf"
| "js_add x NegInf = NegInf"
| "js_add (Num a) (Num b) = Num (a + b)"

definition js_sub :: "jsnum \<Rightarrow> jsnum \<Rightarrow> jsnum" where
  "js_sub x y = js_add x (js_neg y)"

text \<open>The sign of an infinite product or quotient; a zero factor gives \<open>NaN\<close>.\<close>

definition signed_inf :: "bool \<Rightarrow> jsnum" where
  "signed_inf positive = (if positive then PosInf else NegInf)"

fun js_mul :: "jsnum \<Rightarrow> jsnum \<Rightarrow> jsnum" where
  "js_mul NaN y = NaN"
| "js_mul x NaN = NaN"
| "js_mul (Num a) (Num b) = Num (a * b)"
| "js_mul (Num a) PosInf = (if a = 0 then NaN else signed_inf (0 < a))"
| "js_mul (Num a) NegInf = (if a = 0 then NaN else signed_inf (a < 0))"
| "js_mul PosInf (Num b) = (if b = 0 then NaN else signed_inf (0 < b))"
| "js_mul NegInf (Num b) = (if b = 0 then NaN else signed_inf (b < 0))"
| "js_mul PosInf PosInf = PosInf"
| "js_mul NegInf NegInf = PosInf"
| "js_mul PosInf NegInf = NegInf"
| "js_mul NegInf PosInf = NegInf"

fun js_div :: "jsnum \<Rightarrow> jsnum \<Rightarrow> jsnum" where
  "js_div NaN y = NaN"
| "js_div x NaN = NaN"
| "js_div (Num a) (Num b) =
     (if b = 0 then (if a = 0 then NaN else signed_inf (0 < a)) else Num (a / b))"
| "js_div (Num a) PosInf = Num 0"
| "js_div (Num a) NegInf = Num 0"
| "js_div PosInf (Num b) = signed_inf (0 \<le> b)"
| "js_div NegInf (Num b) = signed_inf (b < 0)"
| "js_div x y = NaN"

text \<open>\<open>Math.min\<close> and \<open>Math.max\<close> of two arguments: \<open>NaN\<close> if either is.\<close>

fun Math_min :: "jsnum \<Rightarrow> jsnum \<Rightarrow> jsnum" where
  "Math_min NaN y = NaN"
| "Math_min x NaN = NaN"
| "Math_min x y = (if js_lt y x then y else x)"

fun Math_max :: "jsnum \<Rightarrow> jsnum \<Rightarrow> jsnum" where
  "Math_max NaN y = NaN"
| "Math_max x NaN = NaN"
| "Math_max x y = (if js_lt x y then y else x)"

definition in_unit_interval :: "jsnum \<Rightarrow> bool" where
  "in_unit_interval x = (js_ge x (Num 0) \<and> js_ge (Num 1) x)"

section \<open>Title box controller\<close>

text \<open>The values the controller reads from the window and the document.\<close>

record window =
  pageYOffset :: real
  innerHeight :: real
  scrollHeight :: real

definition calculateScrollProgress :: "window \<Rightarrow> jsnum" where
  "calculateScrollProgress w =
     (let scrollPosition = pageYOffset w;
          viewportHeight = innerHeight w;
          documentHeight = scrollHeight w
      in Math_min (Num 1) (js_div (Num scrollPosition) (Num (documentHeight - viewportHeight))))"

datatype phase = Idle | Boxing | Boxed | Moved | Scrollable

record title_box_config =
  boxingStartPercent :: real
  boxingEndPercent :: real
  moveStartPercent :: real
  moveEndPercent :: real
  makeScrollablePercent :: real

definition TITLE_BOX_CONFIG :: title_box_config where
  "TITLE_BOX_CONFIG =
     \<lparr>boxingStartPercent = 0.01, boxingEndPercent = 0.13, moveStartPercent = 0.13,
      moveEndPercent = 0.35, makeScrollablePercent = 0.4\<rparr>"

text \<open>
  The title box element: its class list and the style properties the controller
  writes. The transform string is kept as a value: \<open>Centered\<close> is
  \<open>translate(-50%, -50%)\<close>, \<open>TranslateScale y s\<close> is
  \<open>translate(-50%, y px) scale(s)\<close>, and \<open>NoTransform\<close> is the empty string.
\<close>

datatype transform = Centered | TranslateScale jsnum jsnum | NoTransform

record title_box =
  classList :: "string list"
  style_position :: string
  style_top :: string
  style_left :: string
  style_transform :: transform
  style_transition :: string
  fill_opacity :: "jsnum option"
  offsetHeight :: real

definition classList_add :: "string list \<Rightarrow> string list \<Rightarrow> string list" where
  "classList_add names cl = foldl (\<lambda>acc c. if c \<in> set acc then acc else acc @ [c]) cl names"

definition classList_remove :: "string list \<Rightarrow> string list \<Rightarrow> string list" where
  "classList_remove names cl = filter (\<lambda>c. c \<notin> set names) cl"

record animation_state =
  isInitialized :: bool
  titleBox :: "title_box option"
  currentPhase :: phase

definition animationState_initial :: animation_state where
  "animationState_initial = \<lparr>isInitialized = False, titleBox = None, currentPhase = Idle\<rparr>"

text \<open>\<open>found\<close> is what \<open>document.getElementById('animated-title-box')\<close> returns.\<close>

definition initializeTitleBoxing :: "title_box option \<Rightarrow> animation_state \<Rightarrow> animation_state" where
  "initializeTitleBoxing found st =
     (let st1 = st\<lparr>titleBox := found\<rparr>
      in if titleBox st1 = None then st1 else st1\<lparr>isInitialized := True\<rparr>)"

text \<open>
  The branch conditions of \<open>updateTitleBoxing\<close>, as written in the source, each
  named by the phase its branch assigns.
\<close>

fun branch_condition :: "phase \<Rightarrow> jsnum \<Rightarrow> bool" where
  "branch_condition Idle p = js_lt p (Num (boxingStartPercent TITLE_BOX_CONFIG))"
| "branch_condition Boxing p =
     (js_ge p (Num (boxingStartPercent TITLE_BOX_CONFIG)) \<and>
      js_lt p (Num (boxingEndPercent TITLE_BOX_CONFIG)))"
| "branch_condition Boxed p =
     (js_ge p (Num (boxingEndPercent TITLE_BOX_CONFIG)) \<and>
      js_lt p (Num (moveStartPercent TITLE_BOX_CONFIG)))"
| "branch_condition Moved p =
     (js_ge p (Num (moveStartPercent TITLE_BOX_CONFIG)) \<and>
      js_lt p (Num (makeScrollablePercent TITLE_BOX_CONFIG)))"
| "branch_condition Scrollable p = js_ge p (Num (makeScrollablePercent TITLE_BOX_CONFIG))"

text \<open>The if / else-if chain: the first branch whose condition holds, if any.\<close>

definition titleBoxBranch :: "jsnum \<Rightarrow> phase option" where
  "titleBoxBranch p =
     (if branch_condition Idle p then Some Idle
      else if branch_condition Boxing p then Some Boxing
      else if branch_condition Boxed p then Some Boxed
      else if branch_condition Moved p then Some Moved
      else if branch_condition Scrollable p then Some Scrollable
      else None)"

definition applicable_branches :: "jsnum \<Rightarrow> phase list" where
  "applicable_branches p =
     filter (\<lambda>b. branch_condition b p) [Idle, Boxing, Boxed, Moved, Scrollable]"

definition fix_to_viewport_center :: "title_box \<Rightarrow> title_box" where
  "fix_to_viewport_center el =
     el\<lparr>style_position := ''fixed'', style_top := ''50%'', style_left := ''50%'',
        style_transform := Centered\<rparr>"

definition idle_branch :: "title_box \<Rightarrow> title_box" where
  "idle_branch el =
     fix_to_viewport_center
       (el\<lparr>classList :=
             classList_remove [''boxing'', ''boxed'', ''moved-to-top'', ''scrollable'']
               (classList el)\<rparr>)"

definition boxing_branch :: "jsnum \<Rightarrow> title_box \<Rightarrow> title_box" where
  "boxing_branch scrollProgress el =
     (let el1 = el\<lparr>classList := classList_add [''boxing''] (classList el)\<rparr>;
          el2 = el1\<lparr>classList :=
                      classList_remove [''boxed'', ''moved-to-top'', ''scrollable'']
                        (classList el1)\<rparr>;
          boxingStart = boxingStartPercent TITLE_BOX_CONFIG;
          boxingEnd = boxingEndPercent TITLE_BOX_CONFIG;
          fillProgress =
            js_div (js_sub scrollProgress (Num boxingStart)) (Num (boxingEnd - boxingStart));
          fillOpacity = Math_min (Math_max fillProgress (Num 0)) (Num 1)
      in fix_to_viewport_center (el2\<lparr>fill_opacity := Some fillOpacity\<rparr>))"

definition boxed_branch :: "title_box \<Rightarrow> title_box" where
  "boxed_branch el =
     (let el1 = el\<lparr>classList := classList_add [''boxed''] (classList el)\<rparr>;
          el2 = el1\<lparr>classList :=
                      classList_remove [''boxing'', ''moved-to-top'', ''scrollable'']
                        (classList el1)\<rparr>
      in fix_to_viewport_center (el2\<lparr>fill_opacity := Some (Num 1)\<rparr>))"

definition moved_branch :: "window \<Rightarrow> jsnum \<Rightarrow> phase \<Rightarrow> title_box \<Rightarrow> title_box" where
  "moved_branch w scrollProgress previousPhase el =
     (let el1 = el\<lparr>classList := classList_add [''boxed''] (classList el)\<rparr>;
          el2 = el1\<lparr>classList :=
                      classList_remove [''moved-to-top'', ''scrollable''] (classList el1)\<rparr>;
          moveStart = moveStartPercent TITLE_BOX_CONFIG;
          moveEnd = makeScrollablePercent TITLE_BOX_CONFIG;
          moveProgress =
            js_div (js_sub scrollProgress (Num moveStart)) (Num (moveEnd - moveStart));
          el3 = (if previousPhase \<noteq> Moved
                 then el2\<lparr>style_position := ''absolute'', style_top := ''0'',
                          style_left := ''50%'', style_transition := ''none''\<rparr>
                 else el2);
          currentScrollPos = pageYOffset w;
          viewportHeight = innerHeight w;
          startYpx = currentScrollPos + (viewportHeight * 0.5) - (offsetHeight el3 * 0.5);
          endYpx = 32;
          currentYpx = js_add (Num startYpx) (js_mul (Num (endYpx - startYpx)) moveProgress);
          scale = js_sub (Num 1) (js_mul moveProgress (Num 0.3))
      in el3\<lparr>style_transform := TranslateScale currentYpx scale\<rparr>)"

definition scrollable_branch :: "title_box \<Rightarrow> title_box" where
  "scrollable_branch el =
     (el\<lparr>classList := classList_add [''boxed'', ''moved-to-top'', ''scrollable''] (classList el)\<rparr>)
       \<lparr>style_transform := NoTransform\<rparr>"

definition updateTitleBoxing :: "window \<Rightarrow> animation_state \<Rightarrow> animation_state" where
  "updateTitleBoxing w st =
     (if \<not> isInitialized st then st
      else case titleBox st of
        None \<Rightarrow> st
      | Some el \<Rightarrow>
          (let scrollProgress = calculateScrollProgress w
           in case titleBoxBranch scrollProgress of
                Some Idle \<Rightarrow> st\<lparr>titleBox := Some (idle_branch el), currentPhase := Idle\<rparr>
              | Some Boxing \<Rightarrow>
                  st\<lparr>titleBox := Some (boxing_branch scrollProgress el), currentPhase := Boxing\<rparr>
              | Some Boxed \<Rightarrow> st\<lparr>titleBox := Some (boxed_branch el), currentPhase := Boxed\<rparr>
              | Some Moved \<Rightarrow>
                  st\<lparr>titleBox := Some (moved_branch w scrollProgress (currentPhase st) el),
                     currentPhase := Moved\<rparr>
              | Some Scrollable \<Rightarrow>
                  st\<lparr>titleBox := Some (scrollable_branch el), currentPhase := Scrollable\<rparr>
              | None \<Rightarrow> st))"

definition cleanupTitleBoxing :: "animation_state \<Rightarrow> animation_state" where
  "cleanupTitleBoxing st =
     (if \<not> isInitialized st then st
      else case titleBox st of
        None \<Rightarrow> st
      | Some el \<Rightarrow>
          st\<lparr>titleBox :=
               Some (el\<lparr>classList :=
                          classList_remove [''boxing'', ''boxed'', ''moved-to-top'', ''scrollable'']
                            (classList el),
                        fill_opacity := None\<rparr>),
             isInitialized := False, currentPhase := Idle\<rparr>)"

text \<open>
  The states the controller can be in: the module's initial state, followed by any
  sequence of calls of its three exported functions.
\<close>

inductive reachable :: "animation_state \<Rightarrow> bool" where
  reachable_initial: "reachable animationState_initial"
| reachable_initialize: "reachable st \<Longrightarrow> reachable (initializeTitleBoxing found st)"
| reachable_update: "reachable st \<Longrightarrow> reachable (updateTitleBoxing w st)"
| reachable_cleanup: "reachable st \<Longrightarrow> reachable (cleanupTitleBoxing st)"

section \<open>Progress system\<close>

record DOMRect =
  rect_top :: real
  rect_bottom :: real
  rect_height :: real

text \<open>
  A content panel: its identifier, its current bounding rectangle, the class lists of
  the links it contains, its \<open>dataset.linksAnimated\<close> entry, and the style values the
  panel animations write (the opacity, and the width of the divider if it has one).
\<close>

record panel =
  panel_id :: string
  boundingRect :: DOMRect
  links :: "string list list"
  linksAnimated :: "string option"
  style_opacity :: "jsnum option"
  divider_width :: "jsnum option option"

record content_page =
  heroSection :: "DOMRect option"
  smallPanels :: "panel list"
  largePanels :: "panel list"
  menuPanels :: "panel list"

record progress_data =
  smoothProgress :: real
  lastPanel :: "panel option"
  totalPanels :: nat

definition allContentPanels :: "content_page \<Rightarrow> panel list" where
  "allContentPanels pg = smallPanels pg @ largePanels pg @ menuPanels pg"

definition absoluteBottom :: "window \<Rightarrow> panel \<Rightarrow> real" where
  "absoluteBottom w p = rect_bottom (boundingRect p) + pageYOffset w"

text \<open>One iteration of the \<open>forEach\<close> that looks for the visually lowest panel.\<close>

definition lowest_step :: "window \<Rightarrow> jsnum \<times> panel option \<Rightarrow> panel \<Rightarrow> jsnum \<times> panel option" where
  "lowest_step w acc p =
     (if js_gt (Num (absoluteBottom w p)) (fst acc) then (Num (absoluteBottom w p), Some p)
      else acc)"

definition find_lowest :: "window \<Rightarrow> panel list \<Rightarrow> jsnum \<times> panel option" where
  "find_lowest w ps = foldl (lowest_step w) (NegInf, None) ps"

definition journeyStart :: "DOMRect \<Rightarrow> real" where
  "journeyStart heroRect = rect_top heroRect"

definition journeyEnd :: "DOMRect \<Rightarrow> real \<Rightarrow> real" where
  "journeyEnd lastRect viewportHeight = rect_bottom lastRect - viewportHeight"

definition calculateContentProgress :: "window \<Rightarrow> content_page \<Rightarrow> real \<Rightarrow> progress_data" where
  "calculateContentProgress w pg viewportHeight =
     (let found = (if length (allContentPanels pg) > 0
                   then snd (find_lowest w (allContentPanels pg)) else None);
          progress =
            (case (heroSection pg, found) of
               (Some heroRect, Some lp) \<Rightarrow>
                 (let lastRect = boundingRect lp;
                      js = journeyStart heroRect;
                      je = journeyEnd lastRect viewportHeight
                  in if js \<ge> 0 then 0
                     else if je \<le> 0 then 1
                     else (let totalJourneyDistance = \<bar>js\<bar> + je;
                               currentJourneyDistance = \<bar>js\<bar>
                           in max 0 (min 1 (currentJourneyDistance / totalJourneyDistance))))
             | _ \<Rightarrow> 0)
      in \<lparr>smoothProgress = progress, lastPanel = found,
          totalPanels = length (smallPanels pg)\<rparr>)"

section \<open>Section scrollbar\<close>

record scrollbar_config =
  targetViewportPosition :: real
  indicatorMinPosition :: real
  indicatorMaxPosition :: real
  indicatorRange :: real

definition SCROLLBAR_CONFIG :: scrollbar_config where
  "SCROLLBAR_CONFIG =
     \<lparr>targetViewportPosition = 0.2, indicatorMinPosition = 2, indicatorMaxPosition = 96,
      indicatorRange = 94\<rparr>"

text \<open>
  How a template string prints an integer: the decimal digits, most significant
  first, after a minus sign for a negative number.
\<close>

definition decimal_digit :: "nat \<Rightarrow> char" where
  "decimal_digit d = ''0123456789'' ! d"

function digits_onto :: "nat \<Rightarrow> string \<Rightarrow> string" where
  "digits_onto n acc =
     (if n < 10 then decimal_digit n # acc
      else digits_onto (n div 10) (decimal_digit (n mod 10) # acc))"
  by pat_completeness auto
termination
  by (relation "measure fst") auto

definition toString_nat :: "nat \<Rightarrow> string" where
  "toString_nat n = digits_onto n []"


text \<open>\<open>String.prototype.trim\<close> on the white space of the ASCII range.\<close>

definition is_space :: "char \<Rightarrow> bool" where
  "is_space c = (c \<in> set [CHR '' '', CHR 0x09, CHR 0x0A, CHR 0x0B, CHR 0x0C, CHR 0x0D])"

definition trim :: "string \<Rightarrow> string" where
  "trim s = rev (dropWhile is_space (rev (dropWhile is_space s)))"

text \<open>
  A \<open>section\<close> element as \<open>getSectionData\<close> reads it: the top of its bounding
  rectangle and, if it has an \<open>h1\<close>, that heading's text and the top of its rectangle.
\<close>

record dom_section =
  section_rect_top :: real
  section_h1 :: "(string \<times> real) option"

text \<open>What \<open>getSectionData\<close> returns for one section.\<close>

record section_data =
  sec_title :: string
  sectionAbsoluteTop :: real
  h1AbsoluteTop :: real
  sec_index :: nat

definition getSectionData :: "window \<Rightarrow> dom_section list \<Rightarrow> section_data list" where
  "getSectionData w sections =
     map (\<lambda>(section, index).
            \<lparr>sec_title = (case section_h1 section of
                            Some (textContent, h1_top) \<Rightarrow> trim textContent
                          | None \<Rightarrow> ''Section '' @ toString_nat (index + 1)),
             sectionAbsoluteTop = section_rect_top section + pageYOffset w,
             h1AbsoluteTop = (case section_h1 section of
                                Some (textContent, h1_top) \<Rightarrow> h1_top + pageYOffset w
                              | None \<Rightarrow> section_rect_top section + pageYOffset w),
             sec_index = index\<rparr>)
         (zip sections [0..<length sections])"

text \<open>
  A click handler is kept as the scroll it requests: \<open>ScrollToTop\<close> asks for offset
  zero, \<open>ScrollToH1 h\<close> calls \<open>scrollToH1AtViewportPosition\<close> with the stored heading
  position.
\<close>

datatype click_handler = ScrollToTop | ScrollToH1 real

definition scrollToH1AtViewportPosition :: "window \<Rightarrow> real \<Rightarrow> real" where
  "scrollToH1AtViewportPosition w h1Position =
     (let viewportHeight = innerHeight w;
          targetViewportOffset = viewportHeight * targetViewportPosition SCROLLBAR_CONFIG
      in max 0 (h1Position - targetViewportOffset))"

text \<open>The \<open>top\<close> offset passed to \<open>window.scrollTo\<close> when a mark is clicked.\<close>

fun click_scrolls_to :: "window \<Rightarrow> click_handler \<Rightarrow> real" where
  "click_scrolls_to w ScrollToTop = 0"
| "click_scrolls_to w (ScrollToH1 h) = scrollToH1AtViewportPosition w h"

text \<open>
  A mark on the ruler: its class name, its \<open>style.top\<close> in percent, its tooltip and its
  click handler. The fixed colours and sizes are left out.
\<close>

record mark =
  mark_className :: string
  mark_top :: real
  mark_title :: string
  mark_click :: "click_handler option"

definition topMark :: mark where
  "topMark =
     \<lparr>mark_className = ''ruler-mark long clickable-mark'',
      mark_top = indicatorMinPosition SCROLLBAR_CONFIG,
      mark_title = ''Scroll to Top'',
      mark_click = Some ScrollToTop\<rparr>"

definition majorMarkPosition :: "window \<Rightarrow> section_data \<Rightarrow> real" where
  "majorMarkPosition w sectionData =
     (let documentHeight = scrollHeight w - innerHeight w;
          viewportHeight = innerHeight w;
          targetViewportOffset = viewportHeight * targetViewportPosition SCROLLBAR_CONFIG;
          targetScrollPosition = max 0 (h1AbsoluteTop sectionData - targetViewportOffset);
          scrollProgress = (if documentHeight > 0 then targetScrollPosition / documentHeight else 0)
      in indicatorMinPosition SCROLLBAR_CONFIG + (scrollProgress * indicatorRange SCROLLBAR_CONFIG))"

definition clampPosition :: "real \<Rightarrow> real" where
  "clampPosition pos =
     max (indicatorMinPosition SCROLLBAR_CONFIG) (min (indicatorMaxPosition SCROLLBAR_CONFIG) pos)"

definition majorMark :: "window \<Rightarrow> section_data \<Rightarrow> mark" where
  "majorMark w sectionData =
     \<lparr>mark_className = ''ruler-mark long clickable-mark'',
      mark_top = clampPosition (majorMarkPosition w sectionData),
      mark_title = ''Navigate to: '' @ sec_title sectionData,
      mark_click = Some (ScrollToH1 (h1AbsoluteTop sectionData))\<rparr>"

definition totalMinorMarks :: nat where
  "totalMinorMarks = 40"

definition minorMarkPosition :: "nat \<Rightarrow> real" where
  "minorMarkPosition i =
     (let minorMarkSpacing = indicatorRange SCROLLBAR_CONFIG / real totalMinorMarks
      in indicatorMinPosition SCROLLBAR_CONFIG + (real i * minorMarkSpacing))"

definition tooCloseToMajor :: "window \<Rightarrow> section_data list \<Rightarrow> nat \<Rightarrow> bool" where
  "tooCloseToMajor w sections i =
     list_ex (\<lambda>sectionData. \<bar>minorMarkPosition i - majorMarkPosition w sectionData\<bar> < 2) sections"

definition minorMark :: "nat \<Rightarrow> mark" where
  "minorMark i =
     \<lparr>mark_className = ''ruler-mark short'', mark_top = minorMarkPosition i,
      mark_title = [], mark_click = None\<rparr>"

text \<open>
  \<open>rulerMarkings\<close> is the list of children of the \<open>.ruler-markings\<close> element, \<open>None\<close>
  when the page has no such element; \<open>sections\<close> is the result of \<open>getSectionData\<close>.
  The result is the element's children after the call.
\<close>

definition createScrollbarMarkings ::
  "window \<Rightarrow> section_data list \<Rightarrow> mark list option \<Rightarrow> mark list option" where
  "createScrollbarMarkings w sections rulerMarkings =
     (case rulerMarkings of
        None \<Rightarrow> None
      | Some existing \<Rightarrow>
          (if length sections = 0 then Some []
           else Some ([topMark] @ map (majorMark w) sections @
                      map minorMark
                        (filter (\<lambda>i. \<not> tooCloseToMajor w sections i) [1..<totalMinorMarks]))))"

text \<open>
  \<open>updateScrollIndicator\<close>: the indicator is the number that the call writes, followed
  by a percent sign, to \<open>style.top\<close> of the \<open>.scroll-indicator\<close> element; it is \<open>None\<close>
  when the page has no such element.
\<close>

definition updateScrollIndicator :: "jsnum \<Rightarrow> jsnum option \<Rightarrow> jsnum option" where
  "updateScrollIndicator scrollProgress indicator =
     (case indicator of
        None \<Rightarrow> None
      | Some old \<Rightarrow>
          (let indicatorPosition =
                 js_add (Num (indicatorMinPosition SCROLLBAR_CONFIG))
                   (js_mul scrollProgress (Num (indicatorRange SCROLLBAR_CONFIG)));
               clampedPosition =
                 Math_max (Num (indicatorMinPosition SCROLLBAR_CONFIG))
                   (Math_min (Num (indicatorMaxPosition SCROLLBAR_CONFIG)) indicatorPosition)
           in Some clampedPosition))"

definition updateScrollbar :: "jsnum \<Rightarrow> jsnum option \<Rightarrow> jsnum option" where
  "updateScrollbar scrollProgress indicator = updateScrollIndicator scrollProgress indicator"

text \<open>
  The scroll progress that \<open>updateScrollEffects\<close> of the main coordinator computes on
  every frame and passes to \<open>updateScrollbar\<close>.
\<close>

definition actualScrollProgress :: "window \<Rightarrow> jsnum" where
  "actualScrollProgress w =
     (let viewportHeight = innerHeight w;
          scrollPosition = pageYOffset w;
          documentHeight = scrollHeight w - viewportHeight
      in Math_min (Num 1) (Math_max (Num 0) (js_div (Num scrollPosition) (Num documentHeight))))"

definition updateScrollEffects_scrollbar :: "window \<Rightarrow> jsnum option \<Rightarrow> jsnum option" where
  "updateScrollEffects_scrollbar w indicator = updateScrollbar (actualScrollProgress w) indicator"

text \<open>A position of the track lies in the band when it is a number from 2 to 96.\<close>

definition in_band :: "jsnum \<Rightarrow> bool" where
  "in_band pos =
     (js_ge pos (Num (indicatorMinPosition SCROLLBAR_CONFIG)) \<and>
      js_ge (Num (indicatorMaxPosition SCROLLBAR_CONFIG)) pos)"

section \<open>Background transition\<close>

text \<open>
  The colour channels pass through \<open>Math.round\<close>, so the result depends on the
  rounding of every arithmetic step before it. The numbers of this module are
  therefore binary64 values, the reals that \<open>toDouble\<close> leaves as they are: \<open>toDouble\<close>
  rounds a real to the nearest binary64 value, a tie going to the even significand,
  and every arithmetic operation of the source rounds its exact result in this way.
  Overflow is not modelled: after the clamp every operand lies between -255 and 255.
\<close>

definition pow2 :: "int \<Rightarrow> real" where
  "pow2 k = (if 0 \<le> k then 2 ^ nat k else 1 / 2 ^ nat (- k))"

text \<open>
  The binary exponent of a positive number: \<open>e\<close> with \<open>2 ^ e \<le> x < 2 ^ (e + 1)\<close>, and
  \<open>-1022\<close> for the smaller, subnormal numbers. The search starts at exponent 0 and
  takes one step per binade.
\<close>

fun binade :: "nat \<Rightarrow> real \<Rightarrow> int \<Rightarrow> int" where
  "binade 0 x e = e"
| "binade (Suc steps) x e =
     (if 2 \<le> x then binade steps (x / 2) (e + 1)
      else if x < 1 \<and> - 1022 < e then binade steps (x * 2) (e - 1)
      else e)"

definition round_half_even :: "real \<Rightarrow> int" where
  "round_half_even m =
     (let f = \<lfloor>m\<rfloor>; d = m - real_of_int f
      in if d < 1 / 2 then f else if 1 / 2 < d then f + 1 else if even f then f else f + 1)"

definition toDouble :: "real \<Rightarrow> real" where
  "toDouble x =
     (if x = 0 then 0
      else (let ulp = pow2 (binade 2200 \<bar>x\<bar> 0 - 52)
            in real_of_int (round_half_even (x / ulp)) * ulp))"





record rgb =
  col_r :: int
  col_g :: int
  col_b :: int

record background_config =
  colors :: "rgb list"
  colorStops :: "real list"

text \<open>The literal \<open>0.4\<close> denotes the binary64 value nearest to it.\<close>

definition BACKGROUND_CONFIG :: background_config where
  "BACKGROUND_CONFIG =
     \<lparr>colors = [\<lparr>col_r = 0, col_g = 0, col_b = 0\<rparr>,
                \<lparr>col_r = 15, col_g = 0, col_b = 107\<rparr>,
                \<lparr>col_r = 62, col_g = 116, col_b = 255\<rparr>],
      colorStops = [0, toDouble 0.4, 1]\<rparr>"










section \<open>Panel animations\<close>

record panel_animation_config =
  minOpacity :: real
  maxOpacity :: real
  opacityRange :: real
  linkStaggerDelay :: nat
  linkAnimationClass :: string
  dividerAnimationSpeed :: real
  visibilityThreshold :: real
  resetThreshold :: real

definition PANEL_ANIMATION_CONFIG :: panel_animation_config where
  "PANEL_ANIMATION_CONFIG =
     \<lparr>minOpacity = 0.2, maxOpacity = 1.0, opacityRange = 0.8, linkStaggerDelay = 150,
      linkAnimationClass = ''animate-in'', dividerAnimationSpeed = 100,
      visibilityThreshold = 0, resetThreshold = 0\<rparr>"

record animation_data =
  animationProgress :: jsnum
  isFullyVisible :: bool
  isVisible :: bool
  isOffScreen :: bool

definition calculatePanelAnimation :: "DOMRect \<Rightarrow> real \<Rightarrow> animation_data" where
  "calculatePanelAnimation rect viewportHeight =
     (let panelTop = rect_top rect;
          panelBottom = rect_bottom rect;
          panelHeight = rect_height rect;
          viewportMidpoint = viewportHeight / 2;
          offScreen = (panelTop > viewportHeight \<or>
                       panelBottom < resetThreshold PANEL_ANIMATION_CONFIG)
      in if panelBottom > visibilityThreshold PANEL_ANIMATION_CONFIG \<and> panelTop < viewportHeight
         then (let panelCenter = panelTop + panelHeight / 2
               in if panelCenter > viewportMidpoint
                  then (let distanceFromMid = panelCenter - viewportMidpoint;
                            maxDistance = viewportHeight - viewportMidpoint
                        in \<lparr>animationProgress =
                              Math_max (Num 0)
                                (js_sub (Num 1) (js_div (Num distanceFromMid) (Num maxDistance))),
                            isFullyVisible = False, isVisible = True, isOffScreen = offScreen\<rparr>)
                  else \<lparr>animationProgress = Num 1, isFullyVisible = True, isVisible = True,
                        isOffScreen = offScreen\<rparr>)
         else \<lparr>animationProgress = Num 0, isFullyVisible = False, isVisible = False,
               isOffScreen = offScreen\<rparr>)"

definition updatePanelOpacity :: "panel \<Rightarrow> jsnum \<Rightarrow> panel" where
  "updatePanelOpacity p progress =
     p\<lparr>style_opacity :=
         Some (js_add (Num (minOpacity PANEL_ANIMATION_CONFIG))
                 (js_mul progress (Num (opacityRange PANEL_ANIMATION_CONFIG))))\<rparr>"

definition updatePanelDivider :: "panel \<Rightarrow> jsnum \<Rightarrow> panel" where
  "updatePanelDivider p progress =
     (case divider_width p of
        None \<Rightarrow> p
      | Some old \<Rightarrow>
          p\<lparr>divider_width :=
              Some (Some (js_mul progress (Num (dividerAnimationSpeed PANEL_ANIMATION_CONFIG))))\<rparr>)"

text \<open>
  A timer set by \<open>setTimeout\<close>: its delay in milliseconds and the index of the link
  that receives the animation class when it fires.
\<close>

record link_timer =
  timer_delay :: nat
  timer_link :: nat

definition fire_timer :: "link_timer \<Rightarrow> panel \<Rightarrow> panel" where
  "fire_timer t p =
     (if timer_link t < length (links p)
      then p\<lparr>links := (links p)[timer_link t :=
                 classList_add [linkAnimationClass PANEL_ANIMATION_CONFIG]
                   (links p ! timer_link t)]\<rparr>
      else p)"

text \<open>The timers of a list fire in the order of the list.\<close>

definition fire_timers :: "link_timer list \<Rightarrow> panel \<Rightarrow> panel" where
  "fire_timers ts p = foldl (\<lambda>q t. fire_timer t q) p ts"

text \<open>\<open>updatePanelLinks\<close> returns the panel and the timers the call has set.\<close>

definition updatePanelLinks :: "panel \<Rightarrow> bool \<Rightarrow> bool \<Rightarrow> panel \<times> link_timer list" where
  "updatePanelLinks p fullyVisible offScreen =
     (if offScreen
      then (p\<lparr>linksAnimated := Some ''false'',
              links := map (classList_remove [linkAnimationClass PANEL_ANIMATION_CONFIG])
                         (links p)\<rparr>, [])
      else if fullyVisible \<and> linksAnimated p \<noteq> Some ''true''
      then (p\<lparr>linksAnimated := Some ''true''\<rparr>,
            map (\<lambda>index. \<lparr>timer_delay = index * linkStaggerDelay PANEL_ANIMATION_CONFIG,
                           timer_link = index\<rparr>)
              [0..<length (links p)])
      else (p, []))"

text \<open>The body of the \<open>forEach\<close> of \<open>updatePanelAnimations\<close>, for one panel.\<close>

definition updateOnePanel :: "real \<Rightarrow> panel \<Rightarrow> panel \<times> link_timer list" where
  "updateOnePanel viewportHeight p =
     (let rect = boundingRect p;
          animationData = calculatePanelAnimation rect viewportHeight;
          p1 = updatePanelOpacity p (animationProgress animationData);
          p2 = updatePanelDivider p1 (animationProgress animationData)
      in updatePanelLinks p2 (isFullyVisible animationData) (isOffScreen animationData))"

definition updatePanelAnimations :: "real \<Rightarrow> content_page \<Rightarrow> (panel \<times> link_timer list) list" where
  "updatePanelAnimations viewportHeight pg =
     map (updateOnePanel viewportHeight) (smallPanels pg @ largePanels pg)"

text \<open>
  A frame: the panel has been laid out at \<open>rect\<close> when the scroll handler runs. A run
  of frames keeps every timer that was set.
\<close>

definition frame :: "real \<Rightarrow> DOMRect \<Rightarrow> panel \<Rightarrow> panel \<times> link_timer list" where
  "frame viewportHeight rect p = updateOnePanel viewportHeight (p\<lparr>boundingRect := rect\<rparr>)"

fun frames :: "real \<Rightarrow> DOMRect list \<Rightarrow> panel \<Rightarrow> panel \<times> link_timer list" where
  "frames viewportHeight [] p = (p, [])"
| "frames viewportHeight (rect # rects) p =
     (let (p1, timers1) = frame viewportHeight rect p;
          (p2, timers2) = frames viewportHeight rects p1
      in (p2, timers1 @ timers2))"

section \<open>Cable data of the globe\<close>

datatype json =
  JNull | JBool bool | JNumber real | JString string | JArray "json list"
  | JObject "(string \<times> json) list"

text \<open>
  What a call of \<open>fetch\<close> does: the promise is rejected, or it resolves to a response
  with its \<open>ok\<close> flag, its status and the outcome of \<open>response.json()\<close> (\<open>None\<close> when
  that promise is rejected).
\<close>

datatype fetch_outcome = Rejected | Response bool nat "json option"

datatype fetch_error = DirectError | ProxyError | AllProxiesFailed

record globe_config =
  cableApiUrl :: string
  proxyUrls :: "string list"

definition GLOBE_CONFIG :: globe_config where
  "GLOBE_CONFIG =
     \<lparr>cableApiUrl = ''https://www.submarinecablemap.com/api/v3/cable/cable-geo.json'',
      proxyUrls = [''https://http-proxy.vastur.com?url='',
                   ''https://cors-anywhere.herokuapp.com/'',
                   ''https://api.allorigins.win/get?url='',
                   ''https://corsproxy.io/?url='']\<rparr>"

text \<open>
  \<open>encodeURIComponent\<close> on a string of UTF-8 bytes: every byte other than an
  unreserved character is replaced by its percent escape.
\<close>

definition is_unreserved :: "char \<Rightarrow> bool" where
  "is_unreserved c =
     (c \<in> set (''ABCDEFGHIJKLMNOPQRSTUVWXYZabcdefghijklmnopqrstuvwxyz0123456789-_.!~*()'' @
               [CHR 0x27]))"

definition hex_digit :: "nat \<Rightarrow> char" where
  "hex_digit d = ''0123456789ABCDEF'' ! d"

definition percent_escape :: "char \<Rightarrow> string" where
  "percent_escape c =
     (if is_unreserved c then [c]
      else [CHR ''%'', hex_digit (of_char c div 16), hex_digit (of_char c mod 16)])"

definition encodeURIComponent :: "string \<Rightarrow> string" where
  "encodeURIComponent s = concat (map percent_escape s)"

text \<open>
  The browser functions the loader depends on: \<open>fetch\<close>, and \<open>JSON.parse\<close> applied
  to a property read (\<open>None\<close> as argument when the property is undefined, \<open>None\<close> as
  result when it throws).
\<close>

record browser =
  fetch :: "string \<Rightarrow> fetch_outcome"
  JSON_parse :: "json option \<Rightarrow> json option"

fun is_prefix :: "string \<Rightarrow> string \<Rightarrow> bool" where
  "is_prefix [] s = True"
| "is_prefix (c # cs) [] = False"
| "is_prefix (c # cs) (d # ds) = (c = d \<and> is_prefix cs ds)"

text \<open>\<open>String.prototype.includes\<close>\<close>

fun string_includes :: "string \<Rightarrow> string \<Rightarrow> bool" where
  "string_includes [] needle = is_prefix needle []"
| "string_includes (c # cs) needle = (is_prefix needle (c # cs) \<or> string_includes cs needle)"

text \<open>Reading the property \<open>contents\<close>: \<open>Inl\<close> when the read throws (on \<open>null\<close>).\<close>

fun get_contents :: "json \<Rightarrow> fetch_error + json option" where
  "get_contents JNull = Inl ProxyError"
| "get_contents (JObject members) = Inr (map_of (rev members) ''contents'')"
| "get_contents v = Inr None"

text \<open>The body of the first inner \<open>try\<close>: \<open>Inr\<close> is a return, \<open>Inl\<close> a throw.\<close>

definition directAttempt :: "browser \<Rightarrow> fetch_error + json" where
  "directAttempt br =
     (case fetch br (cableApiUrl GLOBE_CONFIG) of
        Rejected \<Rightarrow> Inl DirectError
      | Response ok status body \<Rightarrow>
          (if ok then (case body of Some d \<Rightarrow> Inr d | None \<Rightarrow> Inl DirectError)
           else Inl DirectError))"

text \<open>The body of the \<open>try\<close> inside the loop, for one proxy.\<close>

definition proxyAttempt :: "browser \<Rightarrow> string \<Rightarrow> fetch_error + json" where
  "proxyAttempt br proxyUrl =
     (if string_includes proxyUrl ''allorigins.win''
      then (let fullUrl = proxyUrl @ encodeURIComponent (cableApiUrl GLOBE_CONFIG)
            in case fetch br fullUrl of
                 Rejected \<Rightarrow> Inl ProxyError
               | Response ok status body \<Rightarrow>
                   (if ok
                    then (case body of
                            None \<Rightarrow> Inl ProxyError
                          | Some proxyData \<Rightarrow>
                              (case get_contents proxyData of
                                 Inl e \<Rightarrow> Inl e
                               | Inr contents \<Rightarrow>
                                   (case JSON_parse br contents of
                                      Some d \<Rightarrow> Inr d
                                    | None \<Rightarrow> Inl ProxyError)))
                    else Inl ProxyError))
      else (let fullUrl = proxyUrl @ cableApiUrl GLOBE_CONFIG
            in case fetch br fullUrl of
                 Rejected \<Rightarrow> Inl ProxyError
               | Response ok status body \<Rightarrow>
                   (if ok then (case body of Some d \<Rightarrow> Inr d | None \<Rightarrow> Inl ProxyError)
                    else Inl ProxyError)))"

text \<open>The loop over the proxies: a failed attempt is caught and the loop goes on.\<close>

fun tryProxies :: "browser \<Rightarrow> string list \<Rightarrow> fetch_error + json" where
  "tryProxies br [] = Inl AllProxiesFailed"
| "tryProxies br (proxyUrl # rest) =
     (case proxyAttempt br proxyUrl of
        Inr d \<Rightarrow> Inr d
      | Inl e \<Rightarrow> tryProxies br rest)"

definition lineFeature :: "(real \<times> real) list \<Rightarrow> string \<Rightarrow> string \<Rightarrow> json" where
  "lineFeature coordinates name color =
     JObject
       [(''type'', JString ''Feature''),
        (''geometry'',
           JObject [(''type'', JString ''LineString''),
                    (''coordinates'',
                       JArray (map (\<lambda>(x, y). JArray [JNumber x, JNumber y]) coordinates))]),
        (''properties'', JObject [(''name'', JString name), (''color'', JString color)])]"

definition mockData :: json where
  "mockData =
     JObject
       [(''type'', JString ''FeatureCollection''),
        (''features'',
           JArray
             [lineFeature [(-74, 40), (-60, 45), (-40, 50), (-20, 52), (-0.1, 51.5)]
                ''TransAtlantic Cable'' ''#00aaff'',
              lineFeature [(-118, 34), (-140, 25), (-160, 20), (-180, 25), (160, 30), (139, 35)]
                ''TransPacific Cable'' ''#ff6600'',
              lineFeature [(0, 52), (10, 54), (20, 55), (30, 60)]
                ''European Cable'' ''#00ff88'',
              lineFeature [(139, 35), (130, 25), (120, 15), (110, 5), (103, 1)]
                ''Asia Cable'' ''#ffaa00'',
              lineFeature [(-74, 40), (-80, 30), (-85, 20), (-90, 10), (-85, -10), (-70, -30)]
                ''Americas Cable'' ''#aa00ff''])]"

text \<open>
  \<open>fetchCableData\<close>: the outer \<open>try\<close> with its \<open>catch\<close>. The result is \<open>Inr\<close> of the
  value the promise resolves to; \<open>Inl\<close> would be a rejection that reaches the caller.
\<close>

definition fetchCableData_body :: "browser \<Rightarrow> fetch_error + json" where
  "fetchCableData_body br =
     (case directAttempt br of
        Inr d \<Rightarrow> Inr d
      | Inl directError \<Rightarrow> tryProxies br (proxyUrls GLOBE_CONFIG))"

definition fetchCableData :: "browser \<Rightarrow> fetch_error + json" where
  "fetchCableData br =
     (case fetchCableData_body br of
        Inr d \<Rightarrow> Inr d
      | Inl error \<Rightarrow> Inr mockData)"

section \<open>A sample page\<close>

text \<open>
  Concrete values on which the theorems below are instantiated: a window scrolled
  by 300 pixels, and a page whose panels are not laid out in document order: the
  large panel ends lowest, the menu panel, last in the document, starts lowest.
\<close>

definition example_window :: window where
  "example_window = \<lparr>pageYOffset = 300, innerHeight = 800, scrollHeight = 2000\<rparr>"

definition example_panel :: "string \<Rightarrow> real \<Rightarrow> real \<Rightarrow> panel" where
  "example_panel name t b =
     \<lparr>panel_id = name,
      boundingRect = \<lparr>rect_top = t, rect_bottom = b, rect_height = b - t\<rparr>,
      links = [[], [''external'']], linksAnimated = None, style_opacity = None,
      divider_width = Some None\<rparr>"

text \<open>A panel whose links have been animated.\<close>

definition example_animated_panel :: panel where
  "example_animated_panel =
     (example_panel ''intro'' 100 400)
       \<lparr>links := [[''animate-in''], [''external'', ''animate-in'']],
        linksAnimated := Some ''true''\<rparr>"

definition example_off_rect :: DOMRect where
  "example_off_rect = \<lparr>rect_top = 900, rect_bottom = 1200, rect_height = 300\<rparr>"

definition example_entering_rect :: DOMRect where
  "example_entering_rect = \<lparr>rect_top = 700, rect_bottom = 1000, rect_height = 300\<rparr>"

text \<open>A rectangle whose top edge lies exactly on the bottom edge of a viewport of 800.\<close>

definition example_edge_rect :: DOMRect where
  "example_edge_rect = \<lparr>rect_top = 800, rect_bottom = 1100, rect_height = 300\<rparr>"

definition example_visible_rect :: DOMRect where
  "example_visible_rect = \<lparr>rect_top = 100, rect_bottom = 400, rect_height = 300\<rparr>"

definition example_page :: content_page where
  "example_page =
     \<lparr>heroSection = Some \<lparr>rect_top = - 300, rect_bottom = 500, rect_height = 800\<rparr>,
      smallPanels = [example_panel ''intro'' 600 900],
      largePanels = [example_panel ''atlas'' 1000 1400],
      menuPanels = [example_panel ''menu'' 1100 1200]\<rparr>"

definition example_sections :: "section_data list" where
  "example_sections =
     getSectionData \<lparr>pageYOffset = 0, innerHeight = 800, scrollHeight = 2000\<rparr>
       [\<lparr>section_rect_top = 0, section_h1 = Some (''  Atlas '', 40)\<rparr>,
        \<lparr>section_rect_top = 900, section_h1 = None\<rparr>]"

text \<open>
  A browser in which every request fails in a different way: the direct request is
  answered with status 503, the first proxy is unreachable, the second answers with
  a body that is not JSON, the third (AllOrigins) answers with an envelope whose
  \<open>contents\<close> cannot be parsed, and the fourth answers with status 404.
\<close>

definition example_browser :: browser where
  "example_browser =
     \<lparr>fetch = (\<lambda>url.
         if url = cableApiUrl GLOBE_CONFIG then Response False 503 None
         else if url = ''https://cors-anywhere.herokuapp.com/'' @ cableApiUrl GLOBE_CONFIG
           then Response True 200 None
         else if url = ''https://api.allorigins.win/get?url='' @
                      encodeURIComponent (cableApiUrl GLOBE_CONFIG)
           then Response True 200 (Some (JObject [(''contents'', JString ''<html>'')]))
         else if url = ''https://corsproxy.io/?url='' @ cableApiUrl GLOBE_CONFIG
           then Response False 404 None
         else Rejected),
      JSON_parse = (\<lambda>v. None)\<rparr>"

definition example_title_box :: title_box where
  "example_title_box =
     \<lparr>classList = [], style_position = [], style_top = [], style_left = [],
      style_transform = NoTransform, style_transition = [], fill_opacity = None,
      offsetHeight = 120\<rparr>"

section \<open>Properties of the title box controller\<close>

lemma applicable_branches_Num:
  "applicable_branches (Num p) =
     [if p < 0.01 then Idle else if p < 0.13 then Boxing
      else if p < 0.4 then Moved else Scrollable]"
  by (simp add: applicable_branches_def TITLE_BOX_CONFIG_def)

lemma titleBoxBranch_Num:
  "titleBoxBranch (Num p) =
     Some (if p < 0.01 then Idle else if p < 0.13 then Boxing
           else if p < 0.4 then Moved else Scrollable)"
  by (simp add: titleBoxBranch_def TITLE_BOX_CONFIG_def)

text \<open>With a progress of \<open>NaN\<close> every comparison is false and no branch is taken.\<close>

lemma titleBoxBranch_NaN: "titleBoxBranch NaN = None"
  by (simp add: titleBoxBranch_def)

lemma applicable_branches_NaN: "applicable_branches NaN = []"
  by (simp add: applicable_branches_def)

lemma branch_condition_Boxed: "\<not> branch_condition Boxed p"
  by (cases p) (simp_all add: TITLE_BOX_CONFIG_def)

lemma titleBoxBranch_not_Boxed: "titleBoxBranch p \<noteq> Some Boxed"
  by (simp add: titleBoxBranch_def branch_condition_Boxed del: branch_condition.simps)

lemma updateTitleBoxing_phase:
  "currentPhase (updateTitleBoxing w st) =
     (if isInitialized st \<and> titleBox st \<noteq> None
      then (case titleBoxBranch (calculateScrollProgress w) of
              Some b \<Rightarrow> b | None \<Rightarrow> currentPhase st)
      else currentPhase st)"
  by (simp add: updateTitleBoxing_def Let_def split: option.splits phase.splits)

lemma reachable_not_Boxed: "reachable st \<Longrightarrow> currentPhase st \<noteq> Boxed"
proof (induction rule: reachable.induct)
  case reachable_initial
  show ?case by (simp add: animationState_initial_def)
next
  case (reachable_initialize st found)
  then show ?case by (simp add: initializeTitleBoxing_def Let_def)
next
  case (reachable_update st w)
  then show ?case
    using titleBoxBranch_not_Boxed [of "calculateScrollProgress w"]
    by (auto simp: updateTitleBoxing_phase split: option.splits)
next
  case (reachable_cleanup st)
  then show ?case by (simp add: cleanupTitleBoxing_def split: option.splits)
qed

text \<open>
  C2. The claim asks that no scroll-progress computation lets a zero denominator
  through, and that \<open>calculateScrollProgress\<close> of the title box controller always
  returns a value in \<open>[0,1]\<close>. The function divides by
  \<open>documentHeight - viewportHeight\<close> without a guard and clamps only from above: on
  a page exactly as high as the viewport, at scroll offset zero, it computes
  \<open>0 / 0\<close> and returns \<open>NaN\<close>, which is not in \<open>[0,1]\<close>.
\<close>

theorem calculateScrollProgress_short_page:
  "calculateScrollProgress \<lparr>pageYOffset = 0, innerHeight = 800, scrollHeight = 800\<rparr> = NaN \<and>
   \<not> in_unit_interval
        (calculateScrollProgress \<lparr>pageYOffset = 0, innerHeight = 800, scrollHeight = 800\<rparr>)"
  by (simp add: calculateScrollProgress_def in_unit_interval_def)

text \<open>There is no lower clamp either: a negative scroll offset gives a negative progress.\<close>

lemma calculateScrollProgress_negative:
  "calculateScrollProgress \<lparr>pageYOffset = - 12, innerHeight = 800, scrollHeight = 2000\<rparr> =
     Num (- (1 / 100))"
  by (simp add: calculateScrollProgress_def)

text \<open>
  On a page that scrolls, and at a scroll offset that is not negative, the result is a
  number in \<open>[0,1]\<close>.
\<close>

lemma calculateScrollProgress_scrollable:
  assumes "0 \<le> pageYOffset w" "innerHeight w < scrollHeight w"
  shows "\<exists>r. calculateScrollProgress w = Num r \<and> 0 \<le> r \<and> r \<le> 1"
proof -
  let ?q = "pageYOffset w / (scrollHeight w - innerHeight w)"
  have "0 \<le> ?q" using assms by simp
  then have "calculateScrollProgress w = Num (min 1 ?q) \<and> 0 \<le> min 1 ?q \<and> min 1 ?q \<le> 1"
    using assms by (simp add: calculateScrollProgress_def Let_def min_def)
  then show ?thesis by blast
qed

text \<open>
  On a page as high as the viewport the result is \<open>NaN\<close> at offset zero, and the
  update of the title box then takes no branch and leaves the state as it is.
\<close>

lemma calculateScrollProgress_not_scrollable:
  "scrollHeight w = innerHeight w \<Longrightarrow> pageYOffset w = 0 \<Longrightarrow> calculateScrollProgress w = NaN"
  by (simp add: calculateScrollProgress_def)

lemma updateTitleBoxing_NaN:
  "calculateScrollProgress w = NaN \<Longrightarrow> updateTitleBoxing w st = st"
  by (simp add: updateTitleBoxing_def titleBoxBranch_NaN split: option.splits)

text \<open>
  For every progress that is a number, exactly one branch condition of
  \<open>updateTitleBoxing\<close> holds and the if / else-if chain takes that branch: idle below
  0.01, boxing from 0.01 to 0.13, moved from 0.13 to 0.4 and scrollable from 0.4 on,
  the boundary values 0.01, 0.13 and 0.4 belonging to boxing, moved and scrollable.
\<close>

lemma titleBox_phase_partition:
  "(\<exists>b. applicable_branches (Num p) = [b] \<and> titleBoxBranch (Num p) = Some b) \<and>
   titleBoxBranch (Num p) =
     Some (if p < 0.01 then Idle else if p < 0.13 then Boxing
           else if p < 0.4 then Moved else Scrollable) \<and>
   applicable_branches (Num 0.01) = [Boxing] \<and>
   applicable_branches (Num 0.13) = [Moved] \<and>
   applicable_branches (Num 0.4) = [Scrollable] \<and>
   applicable_branches NegInf = [Idle] \<and>
   applicable_branches PosInf = [Scrollable]"
proof -
  have inf: "applicable_branches NegInf = [Idle]" "applicable_branches PosInf = [Scrollable]"
    by (simp_all add: applicable_branches_def)
  show ?thesis
    unfolding applicable_branches_Num titleBoxBranch_Num using inf by simp
qed

text \<open>
  An update of an initialised controller on a page that scrolls sets the phase of the
  one branch that applies.
\<close>

lemma updateTitleBoxing_sets_phase:
  assumes "isInitialized st" "titleBox st \<noteq> None" "calculateScrollProgress w = Num p"
  shows "currentPhase (updateTitleBoxing w st) =
           (if p < 0.01 then Idle else if p < 0.13 then Boxing
            else if p < 0.4 then Moved else Scrollable)"
  using assms by (simp add: updateTitleBoxing_phase titleBoxBranch_Num)

text \<open>
  C3. The claim says that the phase assignment is total: for every progress value
  exactly one phase branch of \<open>updateTitleBoxing\<close> applies. On a page exactly as high as
  the viewport, at scroll offset zero, the progress that \<open>updateTitleBoxing\<close> computes
  is \<open>NaN\<close> (the defect of C2): no branch condition holds, no branch is taken, and the
  update leaves the title box as it was, without the position that the idle branch
  gives it on a page that scrolls.
\<close>

theorem titleBox_no_branch_on_short_page:
  "calculateScrollProgress \<lparr>pageYOffset = 0, innerHeight = 800, scrollHeight = 800\<rparr> = NaN \<and>
   applicable_branches
     (calculateScrollProgress \<lparr>pageYOffset = 0, innerHeight = 800, scrollHeight = 800\<rparr>) = [] \<and>
   titleBoxBranch
     (calculateScrollProgress \<lparr>pageYOffset = 0, innerHeight = 800, scrollHeight = 800\<rparr>) = None \<and>
   updateTitleBoxing \<lparr>pageYOffset = 0, innerHeight = 800, scrollHeight = 800\<rparr>
     (initializeTitleBoxing (Some example_title_box) animationState_initial) =
     initializeTitleBoxing (Some example_title_box) animationState_initial \<and>
   map_option style_position
     (titleBox
        (updateTitleBoxing \<lparr>pageYOffset = 0, innerHeight = 800, scrollHeight = 800\<rparr>
           (initializeTitleBoxing (Some example_title_box) animationState_initial))) = Some [] \<and>
   map_option style_position
     (titleBox
        (updateTitleBoxing \<lparr>pageYOffset = 0, innerHeight = 800, scrollHeight = 2000\<rparr>
           (initializeTitleBoxing (Some example_title_box) animationState_initial))) =
     Some ''fixed'' \<and>
   currentPhase
     (updateTitleBoxing \<lparr>pageYOffset = 600, innerHeight = 800, scrollHeight = 2000\<rparr>
        (initializeTitleBoxing (Some example_title_box) animationState_initial)) = Scrollable"
proof -
  have nan: "calculateScrollProgress \<lparr>pageYOffset = 0, innerHeight = 800, scrollHeight = 800\<rparr> = NaN"
    by (simp add: calculateScrollProgress_def)
  have zero: "calculateScrollProgress \<lparr>pageYOffset = 0, innerHeight = 800, scrollHeight = 2000\<rparr> =
      Num 0"
    by (simp add: calculateScrollProgress_def)
  have half: "calculateScrollProgress \<lparr>pageYOffset = 600, innerHeight = 800, scrollHeight = 2000\<rparr> =
      Num (1 / 2)"
    by (simp add: calculateScrollProgress_def)
  have init: "initializeTitleBoxing (Some example_title_box) animationState_initial =
      \<lparr>isInitialized = True, titleBox = Some example_title_box, currentPhase = Idle\<rparr>"
    by (simp add: initializeTitleBoxing_def animationState_initial_def)
  have same: "updateTitleBoxing \<lparr>pageYOffset = 0, innerHeight = 800, scrollHeight = 800\<rparr>
     (initializeTitleBoxing (Some example_title_box) animationState_initial) =
     initializeTitleBoxing (Some example_title_box) animationState_initial"
    using nan by (rule updateTitleBoxing_NaN)
  have unset: "map_option style_position
      (titleBox (initializeTitleBoxing (Some example_title_box) animationState_initial)) = Some []"
    unfolding init by (simp add: example_title_box_def)
  have fixed: "map_option style_position
     (titleBox
        (updateTitleBoxing \<lparr>pageYOffset = 0, innerHeight = 800, scrollHeight = 2000\<rparr>
           (initializeTitleBoxing (Some example_title_box) animationState_initial))) =
     Some ''fixed''"
    by (simp add: init updateTitleBoxing_def zero titleBoxBranch_Num idle_branch_def
          fix_to_viewport_center_def)
  have scrollable: "currentPhase
     (updateTitleBoxing \<lparr>pageYOffset = 600, innerHeight = 800, scrollHeight = 2000\<rparr>
        (initializeTitleBoxing (Some example_title_box) animationState_initial)) = Scrollable"
    by (simp add: init updateTitleBoxing_phase half titleBoxBranch_Num)
  show ?thesis
    unfolding same using nan unset fixed scrollable
    by (simp add: applicable_branches_NaN titleBoxBranch_NaN)
qed

text \<open>
  C10. Under the shipped configuration \<open>boxingEndPercent\<close> equals \<open>moveStartPercent\<close>,
  so the condition of the fully-boxed branch holds for no progress value and the
  chain never takes that branch; in every state the controller can reach, the phase
  after an update is idle, boxing, moved or scrollable, never boxed.
\<close>

theorem boxed_phase_unreachable:
  "boxingEndPercent TITLE_BOX_CONFIG = moveStartPercent TITLE_BOX_CONFIG \<and>
   (\<forall>p. \<not> branch_condition Boxed p) \<and>
   (\<forall>p. titleBoxBranch p \<noteq> Some Boxed) \<and>
   (reachable st \<longrightarrow>
      currentPhase (updateTitleBoxing w st) \<in> {Idle, Boxing, Moved, Scrollable})"
proof -
  have "currentPhase (updateTitleBoxing w st) \<noteq> Boxed" if "reachable st"
    using reachable_not_Boxed [OF reachable_update [OF that]] .
  then have "reachable st \<longrightarrow>
      currentPhase (updateTitleBoxing w st) \<in> {Idle, Boxing, Moved, Scrollable}"
    by (cases "currentPhase (updateTitleBoxing w st)") auto
  then show ?thesis
    using branch_condition_Boxed titleBoxBranch_not_Boxed
    by (simp add: TITLE_BOX_CONFIG_def)
qed

theorem boxed_phase_unreachable_witness:
  "reachable (initializeTitleBoxing (Some example_title_box) animationState_initial) \<and>
   currentPhase
     (updateTitleBoxing \<lparr>pageYOffset = 156, innerHeight = 800, scrollHeight = 2000\<rparr>
        (initializeTitleBoxing (Some example_title_box) animationState_initial))
     \<in> {Idle, Boxing, Moved, Scrollable}"
  using boxed_phase_unreachable
          [of "initializeTitleBoxing (Some example_title_box) animationState_initial"
              "\<lparr>pageYOffset = 156, innerHeight = 800, scrollHeight = 2000\<rparr>"]
        reachable_initialize [OF reachable_initial]
  by simp

section \<open>Properties of the progress system\<close>


lemma foldl_lowest_step:
  "\<exists>p. acc = (Num (absoluteBottom w p), Some p) \<and> p \<in> S \<and>
         (\<forall>q\<in>S. absoluteBottom w q \<le> absoluteBottom w p) \<Longrightarrow>
   \<exists>p. foldl (lowest_step w) acc ps = (Num (absoluteBottom w p), Some p) \<and>
       p \<in> S \<union> set ps \<and> (\<forall>q\<in>S \<union> set ps. absoluteBottom w q \<le> absoluteBottom w p)"
proof (induction ps arbitrary: acc S)
  case Nil
  then show ?case by simp
next
  case (Cons x xs)
  from Cons.prems obtain p where p: "acc = (Num (absoluteBottom w p), Some p)" "p \<in> S"
    "\<forall>q\<in>S. absoluteBottom w q \<le> absoluteBottom w p" by blast
  let ?acc' = "lowest_step w acc x"
  have "\<exists>p'. ?acc' = (Num (absoluteBottom w p'), Some p') \<and> p' \<in> insert x S \<and>
         (\<forall>q\<in>insert x S. absoluteBottom w q \<le> absoluteBottom w p')"
  proof (cases "absoluteBottom w x > absoluteBottom w p")
    case True
    then have "?acc' = (Num (absoluteBottom w x), Some x)"
      using p(1) by (simp add: lowest_step_def js_gt_def)
    moreover have "\<forall>q\<in>insert x S. absoluteBottom w q \<le> absoluteBottom w x"
      using p(3) True by auto
    ultimately show ?thesis by blast
  next
    case False
    then have "?acc' = acc"
      using p(1) by (simp add: lowest_step_def js_gt_def)
    moreover have "\<forall>q\<in>insert x S. absoluteBottom w q \<le> absoluteBottom w p"
      using p(3) False by auto
    ultimately show ?thesis using p(1,2) by blast
  qed
  from Cons.IH [OF this] show ?case by simp
qed

lemma find_lowest_max:
  assumes "ps \<noteq> []"
  shows "\<exists>p. find_lowest w ps = (Num (absoluteBottom w p), Some p) \<and> p \<in> set ps \<and>
             (\<forall>q\<in>set ps. absoluteBottom w q \<le> absoluteBottom w p)"
proof -
  from assms obtain x xs where ps: "ps = x # xs" by (cases ps) auto
  have first: "lowest_step w (NegInf, None) x = (Num (absoluteBottom w x), Some x)"
    by (simp add: lowest_step_def js_gt_def)
  have "\<exists>p. (Num (absoluteBottom w x), Some x) = (Num (absoluteBottom w p), Some p) \<and> p \<in> {x} \<and>
         (\<forall>q\<in>{x}. absoluteBottom w q \<le> absoluteBottom w p)"
    by blast
  from foldl_lowest_step [OF this, of xs] show ?thesis
    by (simp add: find_lowest_def ps first)
qed

text \<open>
  C7. Whenever at least one panel is tracked, the panel that \<open>calculateContentProgress\<close>
  selects as \<open>lastPanel\<close> is one of the tracked panels, and no tracked panel has a
  greater absolute bottom edge, the bottom of its bounding rectangle plus the page
  offset, whatever the order of the panels in the document.
\<close>

theorem lastPanel_is_lowest:
  "allContentPanels pg \<noteq> [] \<Longrightarrow>
   \<exists>lp. lastPanel (calculateContentProgress w pg viewportHeight) = Some lp \<and>
        lp \<in> set (smallPanels pg @ largePanels pg @ menuPanels pg) \<and>
        (\<forall>q\<in>set (smallPanels pg @ largePanels pg @ menuPanels pg).
            rect_bottom (boundingRect q) + pageYOffset w \<le>
            rect_bottom (boundingRect lp) + pageYOffset w)"
  using find_lowest_max [of "allContentPanels pg" w]
  by (auto simp: calculateContentProgress_def Let_def absoluteBottom_def allContentPanels_def)

theorem lastPanel_is_lowest_witness:
  "allContentPanels example_page \<noteq> [] \<and>
   lastPanel (calculateContentProgress example_window example_page 800) =
     Some (example_panel ''atlas'' 1000 1400) \<and>
   map (\<lambda>q. rect_bottom (boundingRect q) + pageYOffset example_window)
     (smallPanels example_page @ largePanels example_page @ menuPanels example_page) =
     [1200, 1700, 1500] \<and>
   rect_bottom (boundingRect (example_panel ''atlas'' 1000 1400)) + pageYOffset example_window =
     1700"
proof -
  have ne: "allContentPanels example_page \<noteq> []"
    by (simp add: allContentPanels_def example_page_def)
  have bottoms: "map (\<lambda>q. rect_bottom (boundingRect q) + pageYOffset example_window)
     (smallPanels example_page @ largePanels example_page @ menuPanels example_page) =
     [1200, 1700, 1500]"
    by (simp add: example_page_def example_panel_def example_window_def)
  from lastPanel_is_lowest [OF ne, of example_window 800] obtain lp where
    lp: "lastPanel (calculateContentProgress example_window example_page 800) = Some lp"
      "lp \<in> set (smallPanels example_page @ largePanels example_page @ menuPanels example_page)"
      "\<forall>q\<in>set (smallPanels example_page @ largePanels example_page @ menuPanels example_page).
          rect_bottom (boundingRect q) + pageYOffset example_window \<le>
          rect_bottom (boundingRect lp) + pageYOffset example_window"
    by blast
  have "lp = example_panel ''atlas'' 1000 1400"
    using lp(2,3) by (auto simp: example_page_def example_panel_def example_window_def)
  then show ?thesis
    using ne bottoms lp(1) by (simp add: example_panel_def example_window_def)
qed






section \<open>Properties of the section scrollbar\<close>



lemma clampPosition_band:
  "indicatorMinPosition SCROLLBAR_CONFIG \<le> clampPosition x \<and>
   clampPosition x \<le> indicatorMaxPosition SCROLLBAR_CONFIG"
  by (simp add: clampPosition_def SCROLLBAR_CONFIG_def)

lemma minorMarkPosition_band:
  assumes "1 \<le> i" "i < totalMinorMarks"
  shows "indicatorMinPosition SCROLLBAR_CONFIG \<le> minorMarkPosition i \<and>
         minorMarkPosition i \<le> indicatorMaxPosition SCROLLBAR_CONFIG"
proof -
  have "real i \<le> 39" using assms by (simp add: totalMinorMarks_def)
  then show ?thesis
    by (simp add: minorMarkPosition_def SCROLLBAR_CONFIG_def totalMinorMarks_def)
qed

lemma created_marks:
  assumes "createScrollbarMarkings w sections rulerMarkings = Some marks" "m \<in> set marks"
  shows "m = topMark \<or> (\<exists>s\<in>set sections. m = majorMark w s) \<or>
         (\<exists>i. 1 \<le> i \<and> i < totalMinorMarks \<and> m = minorMark i)"
  using assms
  by (auto simp: createScrollbarMarkings_def split: option.splits if_splits)

text \<open>
  Every mark that \<open>createScrollbarMarkings\<close> creates lies in the band from
  \<open>indicatorMinPosition\<close> (2) to \<open>indicatorMaxPosition\<close> (96), in particular every
  section marker for every section layout.
\<close>

lemma marks_in_band:
  "(createScrollbarMarkings w sections rulerMarkings = Some marks \<longrightarrow>
      (\<forall>m\<in>set marks. indicatorMinPosition SCROLLBAR_CONFIG \<le> mark_top m \<and>
                      mark_top m \<le> indicatorMaxPosition SCROLLBAR_CONFIG)) \<and>
   (\<forall>s\<in>set sections. indicatorMinPosition SCROLLBAR_CONFIG \<le> mark_top (majorMark w s) \<and>
                      mark_top (majorMark w s) \<le> indicatorMaxPosition SCROLLBAR_CONFIG) \<and>
   indicatorMinPosition SCROLLBAR_CONFIG = 2 \<and> indicatorMaxPosition SCROLLBAR_CONFIG = 96"
proof -
  have major: "indicatorMinPosition SCROLLBAR_CONFIG \<le> mark_top (majorMark w s) \<and>
        mark_top (majorMark w s) \<le> indicatorMaxPosition SCROLLBAR_CONFIG" for s
    using clampPosition_band by (simp add: majorMark_def)
  have top: "indicatorMinPosition SCROLLBAR_CONFIG \<le> mark_top topMark \<and>
        mark_top topMark \<le> indicatorMaxPosition SCROLLBAR_CONFIG"
    by (simp add: topMark_def SCROLLBAR_CONFIG_def)
  have marks: "indicatorMinPosition SCROLLBAR_CONFIG \<le> mark_top m \<and>
        mark_top m \<le> indicatorMaxPosition SCROLLBAR_CONFIG"
    if "createScrollbarMarkings w sections rulerMarkings = Some marks" "m \<in> set marks" for m
    using created_marks [OF that] major top minorMarkPosition_band
    by (auto simp: minorMark_def)
  show ?thesis using major marks by (simp add: SCROLLBAR_CONFIG_def)
qed

text \<open>
  For every scroll progress that is a number, finite or infinite, inside or outside
  \<open>[0,1]\<close>, the position that \<open>updateScrollIndicator\<close> writes lies in the band.
\<close>

lemma updateScrollIndicator_in_band:
  assumes "scrollProgress \<noteq> NaN"
  shows "\<exists>r. updateScrollIndicator scrollProgress (Some old) = Some (Num r) \<and> 2 \<le> r \<and> r \<le> 96"
  using assms
  by (cases scrollProgress)
     (auto simp: updateScrollIndicator_def SCROLLBAR_CONFIG_def Let_def signed_inf_def)

lemma in_band_Num: "in_band (Num r) \<longleftrightarrow> 2 \<le> r \<and> r \<le> 96"
  by (auto simp: in_band_def SCROLLBAR_CONFIG_def)

text \<open>
  C8. The claim says that every position written to the scrollbar track lies in the
  band, the position of the indicator for every scroll progress. The clamp of
  \<open>updateScrollIndicator\<close> lets \<open>NaN\<close> through, and \<open>updateScrollEffects\<close> passes \<open>NaN\<close> on
  a page exactly as high as the viewport, at scroll offset zero: it divides by the
  scrollable height without the guard that \<open>createScrollbarMarkings\<close> has. The
  position written is then \<open>NaN\<close>, which is not in the band; a progress of 1.7 on the
  other hand is clamped to 96.
\<close>

theorem scroll_indicator_not_clamped_on_short_page:
  "actualScrollProgress \<lparr>pageYOffset = 0, innerHeight = 800, scrollHeight = 800\<rparr> = NaN \<and>
   updateScrollIndicator NaN (Some (Num 2)) = Some NaN \<and>
   updateScrollEffects_scrollbar \<lparr>pageYOffset = 0, innerHeight = 800, scrollHeight = 800\<rparr>
     (Some (Num 2)) = Some NaN \<and>
   \<not> in_band NaN \<and>
   updateScrollIndicator (Num 1.7) (Some (Num 2)) = Some (Num 96) \<and>
   in_band (Num 96)"
  by (simp add: actualScrollProgress_def updateScrollEffects_scrollbar_def updateScrollbar_def
        updateScrollIndicator_def in_band_def SCROLLBAR_CONFIG_def)

text \<open>
  With a document no higher than the viewport the guard of \<open>createScrollbarMarkings\<close>
  applies and every section marker is placed at the minimum bound.
\<close>

lemma section_marks_at_minimum:
  "scrollHeight w - innerHeight w \<le> 0 \<Longrightarrow>
   mark_top (majorMark w s) = indicatorMinPosition SCROLLBAR_CONFIG"
  by (simp add: majorMark_def majorMarkPosition_def clampPosition_def SCROLLBAR_CONFIG_def Let_def)

text \<open>
  C6. The claim says that a scroll-to-top marker is placed on every invocation, also
  on a page without sections. With an empty section list \<open>createScrollbarMarkings\<close>
  returns before it creates the top mark, and the ruler is left empty.
\<close>

theorem no_top_mark_without_sections:
  "createScrollbarMarkings example_window [] (Some []) = Some []"
  by (simp add: createScrollbarMarkings_def)

text \<open>
  C6, as amended. On every invocation on a page that has the ruler element and at
  least one section, the first mark created is the scroll-to-top mark: a clickable
  mark at \<open>indicatorMinPosition\<close> (2), the only mark whose click scrolls to offset
  zero. On a page with the ruler element and no section, no mark is created.
\<close>

theorem top_mark_created:
  "createScrollbarMarkings w [] (Some existing) = Some [] \<and>
   (sections \<noteq> [] \<and> createScrollbarMarkings w sections (Some existing) = Some marks \<longrightarrow>
     hd marks = topMark \<and>
     filter (\<lambda>m. mark_click m = Some ScrollToTop) marks = [topMark] \<and>
     mark_className topMark = ''ruler-mark long clickable-mark'' \<and>
     mark_top topMark = indicatorMinPosition SCROLLBAR_CONFIG \<and>
     indicatorMinPosition SCROLLBAR_CONFIG = 2 \<and>
     mark_click topMark = Some ScrollToTop \<and>
     click_scrolls_to w' ScrollToTop = 0)"
proof -
  have "filter (\<lambda>m. mark_click m = Some ScrollToTop) (map (majorMark w) sections) = []"
    by (simp add: majorMark_def filter_empty_conv)
  moreover have "filter (\<lambda>m. mark_click m = Some ScrollToTop) (map minorMark is) = []" for "is"
    by (simp add: minorMark_def filter_empty_conv)
  ultimately show ?thesis
    by (auto simp: createScrollbarMarkings_def topMark_def SCROLLBAR_CONFIG_def)
qed


theorem top_mark_created_witness:
  "example_sections \<noteq> [] \<and>
   (\<exists>marks. createScrollbarMarkings example_window example_sections (Some []) = Some marks \<and>
            hd marks = topMark \<and>
            filter (\<lambda>m. mark_click m = Some ScrollToTop) marks = [topMark]) \<and>
   mark_top topMark = 2"
proof -
  have ne: "example_sections \<noteq> []"
    by (simp add: example_sections_def getSectionData_def)
  then obtain marks where
    marks: "createScrollbarMarkings example_window example_sections (Some []) = Some marks"
    by (simp add: createScrollbarMarkings_def)
  show ?thesis
    using top_mark_created [of example_window "[]" example_sections marks example_window]
      ne marks
    by simp
qed

section \<open>Properties of the background transition\<close>




lemma colors_values:
  "colors BACKGROUND_CONFIG =
     [\<lparr>col_r = 0, col_g = 0, col_b = 0\<rparr>, \<lparr>col_r = 15, col_g = 0, col_b = 107\<rparr>,
      \<lparr>col_r = 62, col_g = 116, col_b = 255\<rparr>]"
  by (simp add: BACKGROUND_CONFIG_def)










section \<open>Properties of the cable data loader\<close>



lemma tryProxies_all_fail:
  "\<forall>proxyUrl\<in>set urls. isl (proxyAttempt br proxyUrl) \<Longrightarrow>
   tryProxies br urls = Inl AllProxiesFailed"
  by (induction urls) (auto split: sum.splits)

lemma fetchCableData_resolves: "\<exists>d. fetchCableData br = Inr d"
  by (simp add: fetchCableData_def split: sum.splits)

text \<open>A direct request that succeeds is returned as it is.\<close>

lemma fetchCableData_direct:
  "fetch br (cableApiUrl GLOBE_CONFIG) = Response True status (Some d) \<Longrightarrow>
   fetchCableData br = Inr d"
  by (simp add: fetchCableData_def fetchCableData_body_def directAttempt_def)

lemma mockData_features:
  "\<exists>features. mockData = JObject [(''type'', JString ''FeatureCollection''),
                                  (''features'', JArray features)] \<and>
              length features = 5"
  by (simp add: mockData_def)

text \<open>
  C5. If the direct request fails and the attempt through every proxy of the
  configured list fails as well, \<open>fetchCableData\<close> resolves to the embedded fallback
  data, a feature collection of five features; and whatever the requests do,
  \<open>fetchCableData\<close> resolves to a value: no error reaches the caller.
\<close>

theorem fetchCableData_fallback:
  "(isl (directAttempt br) \<and>
    (\<forall>proxyUrl\<in>set (proxyUrls GLOBE_CONFIG). isl (proxyAttempt br proxyUrl)) \<longrightarrow>
      fetchCableData br = Inr mockData) \<and>
   (\<exists>d. fetchCableData br = Inr d) \<and>
   (\<exists>features. mockData = JObject [(''type'', JString ''FeatureCollection''),
                                   (''features'', JArray features)] \<and>
               length features = 5)"
proof -
  have "fetchCableData br = Inr mockData"
    if d: "isl (directAttempt br)"
      and p: "\<forall>proxyUrl\<in>set (proxyUrls GLOBE_CONFIG). isl (proxyAttempt br proxyUrl)"
  proof -
    have "fetchCableData_body br = Inl AllProxiesFailed"
      using d tryProxies_all_fail [OF p]
      by (auto simp: fetchCableData_body_def split: sum.splits)
    then show ?thesis by (simp add: fetchCableData_def)
  qed
  then show ?thesis using fetchCableData_resolves mockData_features by blast
qed


theorem fetchCableData_fallback_witness:
  "isl (directAttempt example_browser) \<and>
   list_all (\<lambda>proxyUrl. isl (proxyAttempt example_browser proxyUrl)) (proxyUrls GLOBE_CONFIG) \<and>
   fetchCableData example_browser = Inr mockData"
proof -
  have d: "isl (directAttempt example_browser)"
    by code_simp
  have p: "list_all (\<lambda>proxyUrl. isl (proxyAttempt example_browser proxyUrl))
             (proxyUrls GLOBE_CONFIG)"
    by code_simp
  then have "\<forall>proxyUrl\<in>set (proxyUrls GLOBE_CONFIG). isl (proxyAttempt example_browser proxyUrl)"
    by (simp add: list_all_iff)
  then show ?thesis
    using fetchCableData_fallback [of example_browser] d p by blast
qed

section \<open>Properties of the panel animations\<close>


lemma fully_visible_not_off_screen:
  "isFullyVisible (calculatePanelAnimation r vh) \<Longrightarrow> \<not> isOffScreen (calculatePanelAnimation r vh)"
  by (auto simp: calculatePanelAnimation_def Let_def PANEL_ANIMATION_CONFIG_def split: if_splits)

lemma links_before_updatePanelLinks [simp]:
  "links (updatePanelDivider (updatePanelOpacity p x) y) = links p"
  "linksAnimated (updatePanelDivider (updatePanelOpacity p x) y) = linksAnimated p"
  by (simp_all add: updatePanelDivider_def updatePanelOpacity_def split: option.splits)

lemma frame_off_screen:
  assumes "isOffScreen (calculatePanelAnimation r vh)"
  shows "linksAnimated (fst (frame vh r p)) = Some ''false''"
    and "links (fst (frame vh r p)) =
           map (classList_remove [linkAnimationClass PANEL_ANIMATION_CONFIG]) (links p)"
    and "snd (frame vh r p) = []"
  using assms by (simp_all add: frame_def updateOnePanel_def updatePanelLinks_def Let_def)

lemma frame_fully_visible:
  assumes "isFullyVisible (calculatePanelAnimation r vh)" "linksAnimated p \<noteq> Some ''true''"
  shows "linksAnimated (fst (frame vh r p)) = Some ''true''"
    and "links (fst (frame vh r p)) = links p"
    and "snd (frame vh r p) =
           map (\<lambda>index. \<lparr>timer_delay = index * linkStaggerDelay PANEL_ANIMATION_CONFIG,
                          timer_link = index\<rparr>) [0..<length (links p)]"
  using assms fully_visible_not_off_screen [OF assms(1)]
  by (simp_all add: frame_def updateOnePanel_def updatePanelLinks_def Let_def)

lemma frame_not_fully_visible:
  assumes "\<not> isFullyVisible (calculatePanelAnimation r vh)" "linksAnimated p = Some ''false''"
    "\<forall>l\<in>set (links p). linkAnimationClass PANEL_ANIMATION_CONFIG \<notin> set l"
  shows "linksAnimated (fst (frame vh r p)) = Some ''false''"
    and "links (fst (frame vh r p)) = links p"
    and "snd (frame vh r p) = []"
proof -
  have "map (classList_remove [linkAnimationClass PANEL_ANIMATION_CONFIG]) (links p) = links p"
    using assms(3) by (intro map_idI) (auto simp: classList_remove_def filter_id_conv)
  then show "linksAnimated (fst (frame vh r p)) = Some ''false''"
    and "links (fst (frame vh r p)) = links p"
    and "snd (frame vh r p) = []"
    using assms(1,2)
    by (simp_all add: frame_def updateOnePanel_def updatePanelLinks_def Let_def)
qed

lemma frames_not_fully_visible:
  assumes "\<forall>r\<in>set rs. \<not> isFullyVisible (calculatePanelAnimation r vh)"
    "linksAnimated p = Some ''false''"
    "\<forall>l\<in>set (links p). linkAnimationClass PANEL_ANIMATION_CONFIG \<notin> set l"
  shows "linksAnimated (fst (frames vh rs p)) = Some ''false'' \<and>
         links (fst (frames vh rs p)) = links p \<and> snd (frames vh rs p) = []"
  using assms
proof (induction rs arbitrary: p)
  case Nil
  then show ?case by simp
next
  case (Cons r rs)
  have nf: "\<not> isFullyVisible (calculatePanelAnimation r vh)" using Cons.prems(1) by simp
  note f = frame_not_fully_visible [OF nf Cons.prems(2,3)]
  have "linksAnimated (fst (frames vh rs (fst (frame vh r p)))) = Some ''false'' \<and>
        links (fst (frames vh rs (fst (frame vh r p)))) = links (fst (frame vh r p)) \<and>
        snd (frames vh rs (fst (frame vh r p))) = []"
    using Cons.prems f by (intro Cons.IH) simp_all
  then show ?case using f by (simp add: split_beta)
qed

lemma classList_add_mem: "c \<in> set (classList_add [c] l)"
  by (simp add: classList_add_def)

lemma fire_timers_upto:
  "k \<le> length (links p) \<Longrightarrow>
   fire_timers (map (\<lambda>index. \<lparr>timer_delay = f index, timer_link = index\<rparr>) [0..<k]) p =
     p\<lparr>links := map (classList_add [linkAnimationClass PANEL_ANIMATION_CONFIG]) (take k (links p)) @
                  drop k (links p)\<rparr>"
proof (induction k)
  case 0
  then show ?case by (simp add: fire_timers_def)
next
  case (Suc k)
  then have k: "k < length (links p)" by simp
  have "fire_timers (map (\<lambda>index. \<lparr>timer_delay = f index, timer_link = index\<rparr>) [0..<Suc k]) p =
      fire_timer \<lparr>timer_delay = f k, timer_link = k\<rparr>
        (fire_timers (map (\<lambda>index. \<lparr>timer_delay = f index, timer_link = index\<rparr>) [0..<k]) p)"
    by (simp add: fire_timers_def)
  also have "\<dots> = fire_timer \<lparr>timer_delay = f k, timer_link = k\<rparr>
      (p\<lparr>links := map (classList_add [linkAnimationClass PANEL_ANIMATION_CONFIG]) (take k (links p)) @
                  drop k (links p)\<rparr>)"
    using Suc by simp
  also have "\<dots> = p\<lparr>links := map (classList_add [linkAnimationClass PANEL_ANIMATION_CONFIG])
                                 (take (Suc k) (links p)) @ drop (Suc k) (links p)\<rparr>"
    using k
    by (simp add: fire_timer_def nth_append list_update_append take_Suc_conv_app_nth
          Cons_nth_drop_Suc [OF k, symmetric])
  finally show ?case .
qed

lemma fire_timers_all:
  "links (fire_timers (map (\<lambda>index. \<lparr>timer_delay = f index, timer_link = index\<rparr>)
                         [0..<length (links p)]) p) =
     map (classList_add [linkAnimationClass PANEL_ANIMATION_CONFIG]) (links p)"
  using fire_timers_upto [of "length (links p)" p f] by simp


text \<open>
  The off-screen test is strict where the visibility test is strict too: a panel
  whose top edge lies exactly on the bottom edge of the viewport is neither visible
  nor off screen, and a frame at that position leaves the flag and the links as they
  are.
\<close>

lemma frame_touching_viewport_edge:
  assumes "rect_top r = vh" "0 \<le> rect_bottom r"
  shows "\<not> isVisible (calculatePanelAnimation r vh)"
    and "\<not> isOffScreen (calculatePanelAnimation r vh)"
    and "linksAnimated (fst (frame vh r p)) = linksAnimated p"
    and "links (fst (frame vh r p)) = links p"
  using assms
  by (simp_all add: calculatePanelAnimation_def PANEL_ANIMATION_CONFIG_def Let_def frame_def
        updateOnePanel_def updatePanelLinks_def)

text \<open>
  Take a panel in any state, in particular with its links animated and the flag set.
  A frame in which the panel is off screen by the test of the source (its top below
  the viewport height, or its bottom above zero) resets the flag to \<open>false\<close>, removes
  the animation class from every link and sets no timer. After any number of frames
  in which the panel is not fully visible, the first frame in which it is fully
  visible again sets the flag and sets one timer per link, link \<open>i\<close> after \<open>i * 150\<close>
  milliseconds; once these timers have fired every link has the animation class
  again.
\<close>

lemma link_animation_replays:
  "isOffScreen (calculatePanelAnimation offRect vh) \<and>
   (\<forall>r\<in>set between. \<not> isFullyVisible (calculatePanelAnimation r vh)) \<and>
   isFullyVisible (calculatePanelAnimation inRect vh) \<longrightarrow>
   (let (p1, t1) = frame vh offRect p;
        (p2, t2) = frames vh between p1;
        (p3, t3) = frame vh inRect p2
    in linksAnimated p1 = Some ''false'' \<and>
       (\<forall>l\<in>set (links p1). linkAnimationClass PANEL_ANIMATION_CONFIG \<notin> set l) \<and>
       length (links p1) = length (links p) \<and>
       t1 = [] \<and> t2 = [] \<and>
       linksAnimated p3 = Some ''true'' \<and>
       t3 = map (\<lambda>index. \<lparr>timer_delay = index * 150, timer_link = index\<rparr>)
              [0..<length (links p)] \<and>
       length (links (fire_timers t3 p3)) = length (links p) \<and>
       (\<forall>l\<in>set (links (fire_timers t3 p3)).
           linkAnimationClass PANEL_ANIMATION_CONFIG \<in> set l))"
proof (intro impI, elim conjE)
  assume off: "isOffScreen (calculatePanelAnimation offRect vh)"
    and mid: "\<forall>r\<in>set between. \<not> isFullyVisible (calculatePanelAnimation r vh)"
    and vis: "isFullyVisible (calculatePanelAnimation inRect vh)"
  define p1 where "p1 = fst (frame vh offRect p)"
  define p2 where "p2 = fst (frames vh between p1)"
  define p3 where "p3 = fst (frame vh inRect p2)"
  define t3 where "t3 = snd (frame vh inRect p2)"
  note f1 = frame_off_screen [OF off, of p, folded p1_def]
  have clean: "\<forall>l\<in>set (links p1). linkAnimationClass PANEL_ANIMATION_CONFIG \<notin> set l"
    unfolding f1(2) by (simp add: classList_remove_def)
  have len1: "length (links p1) = length (links p)"
    unfolding f1(2) by simp
  note f2 = frames_not_fully_visible [OF mid f1(1) clean, folded p2_def]
  have flag2: "linksAnimated p2 \<noteq> Some ''true''" using f2 by simp
  note f3 = frame_fully_visible [OF vis flag2, folded p3_def t3_def]
  have links3: "links p3 = links p1" using f3(2) f2 by simp
  have t3: "t3 = map (\<lambda>index. \<lparr>timer_delay = index * 150, timer_link = index\<rparr>)
              [0..<length (links p3)]"
    using f3(3) f3(2) by (simp add: PANEL_ANIMATION_CONFIG_def)
  have fired: "links (fire_timers t3 p3) =
      map (classList_add [linkAnimationClass PANEL_ANIMATION_CONFIG]) (links p3)"
    unfolding t3 by (rule fire_timers_all)
  have all: "\<forall>l\<in>set (links (fire_timers t3 p3)).
      linkAnimationClass PANEL_ANIMATION_CONFIG \<in> set l"
    unfolding fired using classList_add_mem by auto
  have "linksAnimated p1 = Some ''false'' \<and>
       (\<forall>l\<in>set (links p1). linkAnimationClass PANEL_ANIMATION_CONFIG \<notin> set l) \<and>
       length (links p1) = length (links p) \<and>
       snd (frame vh offRect p) = [] \<and> snd (frames vh between p1) = [] \<and>
       linksAnimated p3 = Some ''true'' \<and>
       t3 = map (\<lambda>index. \<lparr>timer_delay = index * 150, timer_link = index\<rparr>)
              [0..<length (links p)] \<and>
       length (links (fire_timers t3 p3)) = length (links p) \<and>
       (\<forall>l\<in>set (links (fire_timers t3 p3)).
           linkAnimationClass PANEL_ANIMATION_CONFIG \<in> set l)"
    using f1(1,3) clean len1 f2 f3(1) t3 links3 fired all by simp
  then show "let (p1, t1) = frame vh offRect p;
        (p2, t2) = frames vh between p1;
        (p3, t3) = frame vh inRect p2
    in linksAnimated p1 = Some ''false'' \<and>
       (\<forall>l\<in>set (links p1). linkAnimationClass PANEL_ANIMATION_CONFIG \<notin> set l) \<and>
       length (links p1) = length (links p) \<and>
       t1 = [] \<and> t2 = [] \<and>
       linksAnimated p3 = Some ''true'' \<and>
       t3 = map (\<lambda>index. \<lparr>timer_delay = index * 150, timer_link = index\<rparr>)
              [0..<length (links p)] \<and>
       length (links (fire_timers t3 p3)) = length (links p) \<and>
       (\<forall>l\<in>set (links (fire_timers t3 p3)).
           linkAnimationClass PANEL_ANIMATION_CONFIG \<in> set l)"
    unfolding p1_def p2_def p3_def t3_def Let_def split_beta by blast
qed


lemma link_animation_replays_example:
  "isOffScreen (calculatePanelAnimation example_off_rect 800) \<and>
   \<not> isFullyVisible (calculatePanelAnimation example_entering_rect 800) \<and>
   isFullyVisible (calculatePanelAnimation example_visible_rect 800) \<and>
   linksAnimated example_animated_panel = Some ''true'' \<and>
   linksAnimated (fst (frame 800 example_off_rect example_animated_panel)) = Some ''false'' \<and>
   snd (frame 800 example_visible_rect
          (fst (frames 800 [example_entering_rect]
                  (fst (frame 800 example_off_rect example_animated_panel))))) =
     [\<lparr>timer_delay = 0, timer_link = 0\<rparr>, \<lparr>timer_delay = 150, timer_link = 1\<rparr>]"
proof -
  have off: "isOffScreen (calculatePanelAnimation example_off_rect 800)"
    by (simp add: calculatePanelAnimation_def example_off_rect_def PANEL_ANIMATION_CONFIG_def)
  have mid: "\<forall>r\<in>set [example_entering_rect]. \<not> isFullyVisible (calculatePanelAnimation r 800)"
    by (simp add: calculatePanelAnimation_def example_entering_rect_def
          PANEL_ANIMATION_CONFIG_def Let_def)
  have vis: "isFullyVisible (calculatePanelAnimation example_visible_rect 800)"
    by (simp add: calculatePanelAnimation_def example_visible_rect_def
          PANEL_ANIMATION_CONFIG_def Let_def)
  have two: "[0..<length (links example_animated_panel)] = [0, 1]"
    by (simp add: example_animated_panel_def upt_rec)
  have flag: "linksAnimated example_animated_panel = Some ''true''"
    by (simp add: example_animated_panel_def)
  show ?thesis
    using link_animation_replays
            [of example_off_rect 800 "[example_entering_rect]" example_visible_rect
                example_animated_panel]
          off mid vis two flag
    by (simp add: split_beta Let_def)
qed



text \<open>
  C9. The claim says that re-entry always replays the link animation: a panel whose
  links are animated and that goes fully off screen has its flag reset, so that the
  next fully visible frame sets the timers again. The off-screen test of
  \<open>calculatePanelAnimation\<close> is strict (\<open>panelTop > viewportHeight\<close>), while its
  visibility test counts a panel with \<open>panelTop = viewportHeight\<close> as not visible. A
  panel that has left the viewport and rests with its top edge exactly on the bottom
  edge of the viewport is therefore not reset: the flag stays \<open>true\<close>, the links keep
  the class, and the next fully visible frame sets no timer. From a position further
  down (top at 900) the same panel is reset and the timers are set.
\<close>

theorem link_animation_not_replayed_from_edge:
  "\<not> isVisible (calculatePanelAnimation example_edge_rect 800) \<and>
   \<not> isOffScreen (calculatePanelAnimation example_edge_rect 800) \<and>
   isFullyVisible (calculatePanelAnimation example_visible_rect 800) \<and>
   linksAnimated example_animated_panel = Some ''true'' \<and>
   linksAnimated (fst (frame 800 example_edge_rect example_animated_panel)) = Some ''true'' \<and>
   links (fst (frame 800 example_edge_rect example_animated_panel)) =
     [[''animate-in''], [''external'', ''animate-in'']] \<and>
   snd (frame 800 example_visible_rect
          (fst (frame 800 example_edge_rect example_animated_panel))) = [] \<and>
   isOffScreen (calculatePanelAnimation example_off_rect 800) \<and>
   snd (frame 800 example_visible_rect
          (fst (frame 800 example_off_rect example_animated_panel))) =
     [\<lparr>timer_delay = 0, timer_link = 0\<rparr>, \<lparr>timer_delay = 150, timer_link = 1\<rparr>]"
  by code_simp

end
